theory Spec2Isabelle
  imports Complex_Main
begin

section \<open>Field transforms of the Firestore client (dev/src/field-value.ts)\<close>

subsection \<open>JavaScript values\<close>

text \<open>
  A JavaScript number is an IEEE 754 double: a finite value, negative zero, the two
  infinities, or NaN. Every finite double is a rational, so the finite values are
  taken from \<open>rat\<close> (a superset of the doubles; \<open>Num 0\<close> is \<open>+0\<close>); only equality of
  numbers is used, never arithmetic. The literals \<open>1\<close> and \<open>1.0\<close> denote the same
  number.
\<close>

datatype number = NaN | PosInfinity | NegInfinity | NegZero | Num rat

definition is_zero :: "number \<Rightarrow> bool" where
  "is_zero x = (x = NegZero \<or> x = Num 0)"

text \<open>The operator \<open>===\<close> on two numbers: NaN equals nothing, the two zeros are equal.\<close>

definition number_eq :: "number \<Rightarrow> number \<Rightarrow> bool" where
  "number_eq x y = (x \<noteq> NaN \<and> y \<noteq> NaN \<and> (x = y \<or> (is_zero x \<and> is_zero y)))"

text \<open>
  Objects have an identity (a reference) and, being never mutated after construction,
  carry their contents with it. The values are: the primitives, arrays, plain objects
  (own enumerable properties in insertion order) and the instances of \<open>FieldValue\<close>.
  The five subclasses of \<open>FieldTransform\<close> are the constructors of
  \<open>FieldTransform\<close>, each with its private fields; the field \<open>elements\<close> of the two
  array transforms is an array object, given by its reference and its contents.
\<close>

type_synonym ref = nat

datatype js_value =
    JUndefined
  | JNull
  | JBoolean bool
  | JNumber number
  | JString string
  | JArray ref "js_value list"
  | JObject ref "(string \<times> js_value) list"
  | JFieldValue FieldValue
and FieldValue = Instance ref FieldTransform
and FieldTransform =
    DeleteTransform
  | ServerTimestampTransform
  | NumericIncrementTransform js_value
  | ArrayUnionTransform ref "js_value list"
  | ArrayRemoveTransform ref "js_value list"

fun transform_of :: "FieldValue \<Rightarrow> FieldTransform" where
  "transform_of (Instance r t) = t"

text \<open>The operator \<open>===\<close>: primitives by their value, objects by their reference.\<close>

fun strict_eq :: "js_value \<Rightarrow> js_value \<Rightarrow> bool" where
  "strict_eq JUndefined b = (b = JUndefined)"
| "strict_eq JNull b = (b = JNull)"
| "strict_eq (JBoolean x) b = (case b of JBoolean y \<Rightarrow> x = y | _ \<Rightarrow> False)"
| "strict_eq (JNumber x) b = (case b of JNumber y \<Rightarrow> number_eq x y | _ \<Rightarrow> False)"
| "strict_eq (JString x) b = (case b of JString y \<Rightarrow> x = y | _ \<Rightarrow> False)"
| "strict_eq (JArray r xs) b = (case b of JArray r' ys \<Rightarrow> r = r' | _ \<Rightarrow> False)"
| "strict_eq (JObject r ps) b = (case b of JObject r' qs \<Rightarrow> r = r' | _ \<Rightarrow> False)"
| "strict_eq (JFieldValue x) b =
     (case b of JFieldValue y \<Rightarrow>
        (case x of Instance r t \<Rightarrow> (case y of Instance r' u \<Rightarrow> r = r'))
      | _ \<Rightarrow> False)"

fun isArray :: "js_value \<Rightarrow> bool" where
  "isArray (JArray r xs) = True"
| "isArray v = False"

subsection \<open>Errors\<close>

text \<open>
  Every \<open>throw new Error(...)\<close> of the file is the value \<open>Error\<close> with its message.
  A message is the list of the parts of its template literal; the text that
  \<open>invalidArgumentMessage(arg, desc)\<close> (validate.ts) contributes is kept as a part of
  its own, with the argument it was given. \<open>TypeError\<close> is what reading a property of
  \<open>null\<close> raises. \<open>ArgumentError\<close> and \<open>ValidationError\<close> are the errors of the
  helpers of validate.ts and serializer.ts, named as the specification names them.
\<close>

datatype arg = ArgName string | ArgIndex nat

datatype message_part = Lit string | InvalidArgumentMessage arg string

datatype validation_failure =
  NonNumericOperand | RejectedNumber | DisallowedDelete | DisallowedTransform | UndefinedValue

datatype error =
    Error "message_part list"
  | TypeError
  | ArgumentError string nat
  | ValidationError arg validation_failure

subsection \<open>Classification flags and method names\<close>

fun includeInDocumentMask :: "FieldTransform \<Rightarrow> bool" where
  "includeInDocumentMask DeleteTransform = True"
| "includeInDocumentMask ServerTimestampTransform = False"
| "includeInDocumentMask (NumericIncrementTransform n) = False"
| "includeInDocumentMask (ArrayUnionTransform a els) = False"
| "includeInDocumentMask (ArrayRemoveTransform a els) = False"

fun includeInDocumentTransform :: "FieldTransform \<Rightarrow> bool" where
  "includeInDocumentTransform DeleteTransform = False"
| "includeInDocumentTransform ServerTimestampTransform = True"
| "includeInDocumentTransform (NumericIncrementTransform n) = True"
| "includeInDocumentTransform (ArrayUnionTransform a els) = True"
| "includeInDocumentTransform (ArrayRemoveTransform a els) = True"

fun methodName :: "FieldTransform \<Rightarrow> string" where
  "methodName DeleteTransform = ''FieldValue.delete''"
| "methodName ServerTimestampTransform = ''FieldValue.serverTimestamp''"
| "methodName (NumericIncrementTransform n) = ''FieldValue.increment''"
| "methodName (ArrayUnionTransform a els) = ''FieldValue.arrayUnion''"
| "methodName (ArrayRemoveTransform a els) = ''FieldValue.arrayRemove''"

subsection \<open>Encoding (toProto)\<close>

text \<open>
  The proto messages are plain JavaScript objects whose identity is never observed:
  trees of properties. \<open>WUndefined\<close> is the value of a missing property.
\<close>

datatype wire =
    WUndefined
  | WNull
  | WBoolean bool
  | WNumber number
  | WString string
  | WArray "wire list"
  | WObject "(string \<times> wire) list"

text \<open>
  The member access \<open>x.arrayValue\<close>: a TypeError on \<open>null\<close> and \<open>undefined\<close>
  (the postfix \<open>!\<close> of TypeScript is erased), the property of an object when it has
  one, \<open>undefined\<close> otherwise.
\<close>

fun get_arrayValue :: "wire \<Rightarrow> error + wire" where
  "get_arrayValue WNull = Inl TypeError"
| "get_arrayValue WUndefined = Inl TypeError"
| "get_arrayValue (WObject ps) =
     Inr (case map_of ps ''arrayValue'' of Some w \<Rightarrow> w | None \<Rightarrow> WUndefined)"
| "get_arrayValue w = Inr WUndefined"

text \<open>
  The two arguments of \<open>toProto\<close>. Of the serializer (serializer.ts) only
  \<open>encodeValue\<close> is called; it returns an encoded value, \<open>null\<close>, or throws. Of the
  field path (path.ts) only the getter \<open>formattedName\<close> is read.
\<close>

record Serializer =
  encodeValue :: "js_value \<Rightarrow> error + wire"

record FieldPath =
  formattedName :: string

fun toProto :: "FieldTransform \<Rightarrow> Serializer \<Rightarrow> FieldPath \<Rightarrow> error + wire" where
  "toProto DeleteTransform serializer fieldPath =
     Inl (Error [Lit ''FieldValue.delete() should not be included in a FieldTransform''])"
| "toProto ServerTimestampTransform serializer fieldPath =
     Inr (WObject [(''fieldPath'', WString (formattedName fieldPath)),
                   (''setToServerValue'', WString ''REQUEST_TIME'')])"
| "toProto (NumericIncrementTransform operand) serializer fieldPath =
     (case encodeValue serializer operand of
        Inl e \<Rightarrow> Inl e
      | Inr encodedOperand \<Rightarrow>
          Inr (WObject [(''fieldPath'', WString (formattedName fieldPath)),
                        (''increment'', encodedOperand)]))"
| "toProto (ArrayUnionTransform a els) serializer fieldPath =
     (case encodeValue serializer (JArray a els) of
        Inl e \<Rightarrow> Inl e
      | Inr encoded \<Rightarrow>
          (case get_arrayValue encoded of
             Inl e \<Rightarrow> Inl e
           | Inr encodedElements \<Rightarrow>
               Inr (WObject [(''fieldPath'', WString (formattedName fieldPath)),
                             (''appendMissingElements'', encodedElements)])))"
| "toProto (ArrayRemoveTransform a els) serializer fieldPath =
     (case encodeValue serializer (JArray a els) of
        Inl e \<Rightarrow> Inl e
      | Inr encoded \<Rightarrow>
          (case get_arrayValue encoded of
             Inl e \<Rightarrow> Inl e
           | Inr encodedElements \<Rightarrow>
               Inr (WObject [(''fieldPath'', WString (formattedName fieldPath)),
                             (''removeAllFromArray'', encodedElements)])))"

subsection \<open>Factory methods\<close>

text \<open>
  Object allocation is explicit: the state is the next unused reference, and every
  \<open>new\<close> and every rest-parameter array takes one. The two sentinels are created
  once, when the module is loaded, and the static fields that hold them are never
  assigned again: they are constants, and the module's state after loading is
  \<open>initial_alloc\<close>.
\<close>

type_synonym alloc = ref

definition DELETE_SENTINEL :: FieldValue where
  "DELETE_SENTINEL = Instance 0 DeleteTransform"

definition SERVER_TIMESTAMP_SENTINEL :: FieldValue where
  "SERVER_TIMESTAMP_SENTINEL = Instance 1 ServerTimestampTransform"

definition initial_alloc :: alloc where
  "initial_alloc = 2"

text \<open>
  Modelled from the spec: \<open>validateMinNumberOfArguments\<close> is defined in validate.ts,
  which is not among the sources. The specification: the factory functions raise an
  \<open>ArgumentError\<close> when the minimum-argument contract is violated.
\<close>

definition validateMinNumberOfArguments :: "string \<Rightarrow> js_value list \<Rightarrow> nat \<Rightarrow> error + unit" where
  "validateMinNumberOfArguments funcName args minSize =
     (if length args < minSize then Inl (ArgumentError funcName minSize) else Inr ())"

definition FieldValue_delete :: "alloc \<Rightarrow> FieldValue \<times> alloc" where
  "FieldValue_delete s = (DELETE_SENTINEL, s)"

definition FieldValue_serverTimestamp :: "alloc \<Rightarrow> FieldValue \<times> alloc" where
  "FieldValue_serverTimestamp s = (SERVER_TIMESTAMP_SENTINEL, s)"

text \<open>
  A factory is called with the list of its actual arguments (\<open>arguments\<close>). The
  parameter \<open>n\<close> of \<open>increment\<close> is the first of them, \<open>undefined\<close> when there is none.
\<close>

definition FieldValue_increment :: "js_value list \<Rightarrow> alloc \<Rightarrow> (error + FieldValue) \<times> alloc" where
  "FieldValue_increment args s =
     (let n = (case args of [] \<Rightarrow> JUndefined | x # _ \<Rightarrow> x) in
      case validateMinNumberOfArguments ''FieldValue.increment'' args 1 of
        Inl e \<Rightarrow> (Inl e, s)
      | Inr _ \<Rightarrow> (Inr (Instance s (NumericIncrementTransform n)), Suc s))"

text \<open>
  The rest parameter \<open>...elements\<close> is a new array holding the arguments; the new
  transform keeps this very array.
\<close>

definition FieldValue_arrayUnion :: "js_value list \<Rightarrow> alloc \<Rightarrow> (error + FieldValue) \<times> alloc" where
  "FieldValue_arrayUnion args s =
     (let a = s; s1 = Suc s in
      case validateMinNumberOfArguments ''FieldValue.arrayUnion'' args 1 of
        Inl e \<Rightarrow> (Inl e, s1)
      | Inr _ \<Rightarrow> (Inr (Instance s1 (ArrayUnionTransform a args)), Suc s1))"

definition FieldValue_arrayRemove :: "js_value list \<Rightarrow> alloc \<Rightarrow> (error + FieldValue) \<times> alloc" where
  "FieldValue_arrayRemove args s =
     (let a = s; s1 = Suc s in
      case validateMinNumberOfArguments ''FieldValue.arrayRemove'' args 1 of
        Inl e \<Rightarrow> (Inl e, s1)
      | Inr _ \<Rightarrow> (Inr (Instance s1 (ArrayRemoveTransform a args)), Suc s1))"

subsection \<open>Equality (isEqual)\<close>

text \<open>
  Modelled from the spec: \<open>deepEqual\<close> is imported from the package fast-deep-equal,
  which is not among the sources. The specification: recursive deep structural
  equality of arbitrarily nested lists and maps of mixed types, in which the order of
  the elements of a list matters. As in the package, a value is equal to itself (also
  NaN), arrays are compared by length and index by index, and two objects of one class
  by their own enumerable properties: the keys of a plain object, \<open>operand\<close> of an
  increment, \<open>elements\<close> of an array transform, none for the two sentinels' classes.
\<close>

fun deepEqual :: "js_value \<Rightarrow> js_value \<Rightarrow> bool"
  and deepEqual_array :: "js_value list \<Rightarrow> js_value list \<Rightarrow> bool"
  and deepEqual_props :: "(string \<times> js_value) list \<Rightarrow> (string \<times> js_value) list \<Rightarrow> bool"
  and deepEqual_transform :: "FieldTransform \<Rightarrow> FieldTransform \<Rightarrow> bool"
where
  "deepEqual a b =
     (strict_eq a b \<or>
      (case a of
         JArray r xs \<Rightarrow> (case b of JArray r' ys \<Rightarrow> deepEqual_array xs ys | _ \<Rightarrow> False)
       | JObject r ps \<Rightarrow>
           (case b of
              JObject r' qs \<Rightarrow>
                length ps = length qs
                \<and> list_all (\<lambda>k. map_of qs k \<noteq> None) (map fst ps)
                \<and> deepEqual_props ps qs
            | _ \<Rightarrow> False)
       | JFieldValue x \<Rightarrow>
           (case b of
              JFieldValue y \<Rightarrow>
                (case x of Instance r t \<Rightarrow>
                   (case y of Instance r' u \<Rightarrow> deepEqual_transform t u))
            | _ \<Rightarrow> False)
       | JNumber x \<Rightarrow> (case b of JNumber y \<Rightarrow> x = NaN \<and> y = NaN | _ \<Rightarrow> False)
       | _ \<Rightarrow> False))"
| "deepEqual_array [] ys = (ys = [])"
| "deepEqual_array (x # xs) ys =
     (case ys of [] \<Rightarrow> False | y # ys' \<Rightarrow> deepEqual x y \<and> deepEqual_array xs ys')"
| "deepEqual_props [] qs = True"
| "deepEqual_props ((k, v) # ps) qs =
     ((case map_of qs k of None \<Rightarrow> deepEqual v JUndefined | Some w \<Rightarrow> deepEqual v w)
      \<and> deepEqual_props ps qs)"
| "deepEqual_transform DeleteTransform u = (u = DeleteTransform)"
| "deepEqual_transform ServerTimestampTransform u = (u = ServerTimestampTransform)"
| "deepEqual_transform (NumericIncrementTransform x) u =
     (case u of NumericIncrementTransform y \<Rightarrow> deepEqual x y | _ \<Rightarrow> False)"
| "deepEqual_transform (ArrayUnionTransform a xs) u =
     (case u of ArrayUnionTransform a' ys \<Rightarrow> a = a' \<or> deepEqual_array xs ys | _ \<Rightarrow> False)"
| "deepEqual_transform (ArrayRemoveTransform a xs) u =
     (case u of ArrayRemoveTransform a' ys \<Rightarrow> a = a' \<or> deepEqual_array xs ys | _ \<Rightarrow> False)"

text \<open>\<open>FieldValue.isEqual\<close>, which the two sentinels' classes inherit.\<close>

definition FieldValue_isEqual :: "FieldValue \<Rightarrow> js_value \<Rightarrow> bool" where
  "FieldValue_isEqual this other = strict_eq (JFieldValue this) other"

text \<open>
  \<open>x.isEqual(other)\<close>, dispatched on the class of \<open>x\<close>;
  \<open>other instanceof C\<close> is a match on the constructor of \<open>other\<close>.
\<close>

definition isEqual :: "FieldValue \<Rightarrow> js_value \<Rightarrow> bool" where
  "isEqual this other =
     (case transform_of this of
        DeleteTransform \<Rightarrow> FieldValue_isEqual this other
      | ServerTimestampTransform \<Rightarrow> FieldValue_isEqual this other
      | NumericIncrementTransform operand \<Rightarrow>
          strict_eq (JFieldValue this) other
          \<or> (case other of
                JFieldValue (Instance r' (NumericIncrementTransform operand')) \<Rightarrow>
                  strict_eq operand operand'
              | _ \<Rightarrow> False)
      | ArrayUnionTransform a els \<Rightarrow>
          strict_eq (JFieldValue this) other
          \<or> (case other of
                JFieldValue (Instance r' (ArrayUnionTransform a' els')) \<Rightarrow>
                  deepEqual (JArray a els) (JArray a' els')
              | _ \<Rightarrow> False)
      | ArrayRemoveTransform a els \<Rightarrow>
          strict_eq (JFieldValue this) other
          \<or> (case other of
                JFieldValue (Instance r' (ArrayRemoveTransform a' els')) \<Rightarrow>
                  deepEqual (JArray a els) (JArray a' els')
              | _ \<Rightarrow> False))"

subsection \<open>Validation\<close>

record ValidationOptions =
  allowDeletes :: string
  allowTransforms :: bool
  allowUndefined :: bool

text \<open>
  \<open>validateUserInput(arg, v, desc, options, path, level, inArray)\<close> is defined in
  serializer.ts, which is not among the sources: \<open>validateArrayElement\<close> and
  \<open>validate\<close> take it as a parameter.
\<close>

type_synonym validator =
  "arg \<Rightarrow> js_value \<Rightarrow> string \<Rightarrow> ValidationOptions \<Rightarrow> FieldPath option \<Rightarrow> nat \<Rightarrow> bool
   \<Rightarrow> error + unit"

definition nestedArrayError :: "arg \<Rightarrow> error" where
  "nestedArrayError a =
     Error [InvalidArgumentMessage a ''array element'',
            Lit '' Nested arrays are not supported.'']"

definition validateArrayElement :: "validator \<Rightarrow> arg \<Rightarrow> js_value \<Rightarrow> bool \<Rightarrow> error + unit" where
  "validateArrayElement validateUserInput a v allowUndef =
     (if isArray v then Inl (nestedArrayError a)
      else validateUserInput a v ''array element''
             \<lparr>allowDeletes = ''none'', allowTransforms = False, allowUndefined = allowUndef\<rparr>
             None 0 True)"

text \<open>
  The loop \<open>for (let i = 0; i < this.elements.length; ++i)\<close> of the two array
  transforms, at index \<open>i\<close> with the elements from \<open>i\<close> on still to be validated.
\<close>

fun validateElements :: "validator \<Rightarrow> nat \<Rightarrow> js_value list \<Rightarrow> bool \<Rightarrow> error + unit" where
  "validateElements validateUserInput i [] allowUndef = Inr ()"
| "validateElements validateUserInput i (x # xs) allowUndef =
     (case validateArrayElement validateUserInput (ArgIndex i) x allowUndef of
        Inl e \<Rightarrow> Inl e
      | Inr _ \<Rightarrow> validateElements validateUserInput (Suc i) xs allowUndef)"

text \<open>
  Modelled from the spec: \<open>validateNumber\<close> is defined in validate.ts, which is not
  among the sources. The specification: \<open>validate()\<close> raises a \<open>ValidationError\<close> when
  the increment operand is non-numeric. What the function does with an operand that is
  a number (its range checks) the specification leaves open: it is the parameter
  \<open>numberOk\<close>.
\<close>

definition validateNumber :: "(number \<Rightarrow> bool) \<Rightarrow> arg \<Rightarrow> js_value \<Rightarrow> error + unit" where
  "validateNumber numberOk a v =
     (case v of
        JNumber n \<Rightarrow> if numberOk n then Inr () else Inl (ValidationError a RejectedNumber)
      | _ \<Rightarrow> Inl (ValidationError a NonNumericOperand))"

fun validate :: "(number \<Rightarrow> bool) \<Rightarrow> validator \<Rightarrow> FieldTransform \<Rightarrow> bool \<Rightarrow> error + unit" where
  "validate numberOk validateUserInput DeleteTransform allowUndef = Inr ()"
| "validate numberOk validateUserInput ServerTimestampTransform allowUndef = Inr ()"
| "validate numberOk validateUserInput (NumericIncrementTransform operand) allowUndef =
     validateNumber numberOk (ArgName ''FieldValue.increment()'') operand"
| "validate numberOk validateUserInput (ArrayUnionTransform a els) allowUndef =
     validateElements validateUserInput 0 els allowUndef"
| "validate numberOk validateUserInput (ArrayRemoveTransform a els) allowUndef =
     validateElements validateUserInput 0 els allowUndef"

text \<open>
  Modelled from the spec: an instance of the absent \<open>validateUserInput\<close>. The
  specification: no delete sentinel is permitted where the policy \<open>allowDeletes\<close> is
  \<open>none\<close>, no field transform where \<open>allowTransforms\<close> is false (an array element may
  not itself be a ServerTimestamp, Increment, ArrayUnion or ArrayRemove), and an
  \<open>undefined\<close> value is permitted or rejected according to \<open>allowUndefined\<close>; the
  policy is propagated recursively through nested maps and arrays.
\<close>

fun validateUserInput :: validator
  and validateUserInput_array ::
    "arg \<Rightarrow> js_value list \<Rightarrow> string \<Rightarrow> ValidationOptions \<Rightarrow> nat \<Rightarrow> error + unit"
  and validateUserInput_props ::
    "arg \<Rightarrow> (string \<times> js_value) list \<Rightarrow> string \<Rightarrow> ValidationOptions \<Rightarrow> nat \<Rightarrow> bool
     \<Rightarrow> error + unit"
where
  "validateUserInput a v desc options path level inArray =
     (case v of
        JArray r xs \<Rightarrow> validateUserInput_array a xs desc options (Suc level)
      | JObject r ps \<Rightarrow> validateUserInput_props a ps desc options (Suc level) inArray
      | JUndefined \<Rightarrow>
          if allowUndefined options then Inr () else Inl (ValidationError a UndefinedValue)
      | JFieldValue x \<Rightarrow>
          (case transform_of x of
             DeleteTransform \<Rightarrow>
               if allowDeletes options = ''none'' then Inl (ValidationError a DisallowedDelete)
               else Inr ()
           | _ \<Rightarrow>
               if allowTransforms options then Inr ()
               else Inl (ValidationError a DisallowedTransform))
      | _ \<Rightarrow> Inr ())"
| "validateUserInput_array a [] desc options level = Inr ()"
| "validateUserInput_array a (x # xs) desc options level =
     (case validateUserInput a x desc options None level True of
        Inl e \<Rightarrow> Inl e
      | Inr _ \<Rightarrow> validateUserInput_array a xs desc options level)"
| "validateUserInput_props a [] desc options level inArray = Inr ()"
| "validateUserInput_props a ((k, x) # ps) desc options level inArray =
     (case validateUserInput a x desc options None level inArray of
        Inl e \<Rightarrow> Inl e
      | Inr _ \<Rightarrow> validateUserInput_props a ps desc options level inArray)"

subsection \<open>Calls in sequence, and a sample serializer\<close>

text \<open>
  \<open>f(...).isEqual(g(...))\<close>: the two factory calls run one after the other from the
  allocation state \<open>s\<close>; \<open>None\<close> when one of them throws.
\<close>

definition isEqual_of_calls ::
  "(alloc \<Rightarrow> (error + FieldValue) \<times> alloc) \<Rightarrow> (alloc \<Rightarrow> (error + FieldValue) \<times> alloc)
   \<Rightarrow> alloc \<Rightarrow> bool option" where
  "isEqual_of_calls f g s =
     (case f s of
        (Inl e, s1) \<Rightarrow> None
      | (Inr x, s1) \<Rightarrow>
          (case g s1 of
             (Inl e, s2) \<Rightarrow> None
           | (Inr y, s2) \<Rightarrow> Some (isEqual x (JFieldValue y))))"

fun isNumber :: "js_value \<Rightarrow> bool" where
  "isNumber (JNumber n) = True"
| "isNumber v = False"

text \<open>
  Modelled from the spec: \<open>Serializer.encodeValue\<close> is defined in serializer.ts, which
  is not among the sources. The specification: it converts a native value (number,
  string, list) into the wire value representation, lists recursively. This sample
  encoder does so for strings, booleans, \<open>null\<close>, numbers and arrays, in the JSON form
  of the Value message of the Firestore API, and throws for every other value. It
  serves only as a concrete argument of \<open>toProto\<close>.
\<close>

fun isInteger :: "number \<Rightarrow> bool" where
  "isInteger (Num q) = (q = of_int \<lfloor>q\<rfloor>)"
| "isInteger NegZero = True"
| "isInteger n = False"

fun sampleEncodeValue :: "js_value \<Rightarrow> error + wire"
  and sampleEncodeValues :: "js_value list \<Rightarrow> error + wire list"
where
  "sampleEncodeValue v =
     (case v of
        JString s \<Rightarrow> Inr (WObject [(''stringValue'', WString s)])
      | JBoolean b \<Rightarrow> Inr (WObject [(''booleanValue'', WBoolean b)])
      | JNull \<Rightarrow> Inr (WObject [(''nullValue'', WString ''NULL_VALUE'')])
      | JNumber n \<Rightarrow>
          Inr (WObject [(if isInteger n then ''integerValue'' else ''doubleValue'', WNumber n)])
      | JArray r xs \<Rightarrow>
          (case sampleEncodeValues xs of
             Inl e \<Rightarrow> Inl e
           | Inr ws \<Rightarrow> Inr (WObject [(''arrayValue'', WObject [(''values'', WArray ws)])]))
      | _ \<Rightarrow> Inl (Error [Lit ''Cannot encode value'']))"
| "sampleEncodeValues [] = Inr []"
| "sampleEncodeValues (x # xs) =
     (case sampleEncodeValue x of
        Inl e \<Rightarrow> Inl e
      | Inr w \<Rightarrow> (case sampleEncodeValues xs of Inl e \<Rightarrow> Inl e | Inr ws \<Rightarrow> Inr (w # ws)))"

definition sampleSerializer :: Serializer where
  "sampleSerializer = \<lparr>encodeValue = sampleEncodeValue\<rparr>"

section \<open>Theorems\<close>

text \<open>
  C1. For every transform kind exactly one of the two classification flags is true:
  Delete is in the document mask and not in the document transform; ServerTimestamp,
  NumericIncrement, ArrayUnion and ArrayRemove (with any payload) are in the document
  transform and not in the mask. The flags are never both true nor both false.
\<close>

theorem classification_flags_exclusive:
  "includeInDocumentMask DeleteTransform
   \<and> \<not> includeInDocumentTransform DeleteTransform
   \<and> \<not> includeInDocumentMask ServerTimestampTransform
   \<and> includeInDocumentTransform ServerTimestampTransform
   \<and> \<not> includeInDocumentMask (NumericIncrementTransform n)
   \<and> includeInDocumentTransform (NumericIncrementTransform n)
   \<and> \<not> includeInDocumentMask (ArrayUnionTransform a els)
   \<and> includeInDocumentTransform (ArrayUnionTransform a els)
   \<and> \<not> includeInDocumentMask (ArrayRemoveTransform a els)
   \<and> includeInDocumentTransform (ArrayRemoveTransform a els)
   \<and> includeInDocumentMask t \<noteq> includeInDocumentTransform t"
  by (cases t) simp_all

theorem classification_flags_exclusive_witness:
  "includeInDocumentMask DeleteTransform
   \<and> \<not> includeInDocumentTransform DeleteTransform
   \<and> \<not> includeInDocumentMask (NumericIncrementTransform (JNumber (Num 5)))
   \<and> includeInDocumentTransform (ArrayUnionTransform 3 [JString ''x''])
   \<and> includeInDocumentMask (ArrayRemoveTransform 3 [JString ''x''])
       \<noteq> includeInDocumentTransform (ArrayRemoveTransform 3 [JString ''x''])"
  using classification_flags_exclusive
    [of "JNumber (Num 5)" 3 "[JString ''x'']" "ArrayRemoveTransform 3 [JString ''x'']"]
  by simp

text \<open>
  C4. \<open>toProto\<close> on a Delete transform raises an error for every serializer and every
  field path: it never returns a proto message.
\<close>

theorem delete_toProto_raises:
  "toProto DeleteTransform serializer fieldPath =
     Inl (Error [Lit ''FieldValue.delete() should not be included in a FieldTransform''])
   \<and> (\<forall>w. toProto DeleteTransform serializer fieldPath \<noteq> Inr w)"
  by simp

theorem delete_toProto_raises_witness:
  "toProto DeleteTransform \<lparr>encodeValue = (\<lambda>v. Inr WNull)\<rparr> \<lparr>formattedName = ''a''\<rparr> =
     Inl (Error [Lit ''FieldValue.delete() should not be included in a FieldTransform''])"
  using delete_toProto_raises
    [of "\<lparr>encodeValue = (\<lambda>v. Inr WNull)\<rparr>" "\<lparr>formattedName = ''a''\<rparr>"]
  by simp

subsection \<open>Helper lemmas\<close>

lemma strict_eq_same_instance: "strict_eq (JFieldValue x) (JFieldValue x)"
  by (cases x) simp

lemma deepEqual_refl: "deepEqual x x"
  by (cases x) (auto simp: number_eq_def split: FieldValue.splits)

lemma deepEqual_array_refl: "deepEqual_array xs xs"
  by (induction xs) (simp_all add: deepEqual_refl del: deepEqual.simps)

lemma increment_returns:
  "FieldValue_increment (x # rest) s = (Inr (Instance s (NumericIncrementTransform x)), Suc s)"
  by (simp add: FieldValue_increment_def validateMinNumberOfArguments_def)

lemma arrayUnion_returns:
  "args \<noteq> [] \<Longrightarrow>
   FieldValue_arrayUnion args s = (Inr (Instance (Suc s) (ArrayUnionTransform s args)), Suc (Suc s))"
  by (cases args) (simp_all add: FieldValue_arrayUnion_def validateMinNumberOfArguments_def)

lemma arrayRemove_returns:
  "args \<noteq> [] \<Longrightarrow>
   FieldValue_arrayRemove args s = (Inr (Instance (Suc s) (ArrayRemoveTransform s args)), Suc (Suc s))"
  by (cases args) (simp_all add: FieldValue_arrayRemove_def validateMinNumberOfArguments_def)

subsection \<open>Sentinels\<close>

text \<open>
  C2. Any two calls of \<open>delete()\<close>, whatever the allocation states \<open>s\<close> and \<open>s'\<close> they
  run in, return the same instance (the same value, \<open>===\<close> holds) and \<open>isEqual\<close> between
  them is true; likewise for \<open>serverTimestamp()\<close>. A value returned by \<open>delete()\<close> is
  never \<open>isEqual\<close> to one returned by \<open>serverTimestamp()\<close>, in either direction.
\<close>

theorem sentinel_identity:
  "fst (FieldValue_delete s) = fst (FieldValue_delete s')
   \<and> strict_eq (JFieldValue (fst (FieldValue_delete s))) (JFieldValue (fst (FieldValue_delete s')))
   \<and> isEqual (fst (FieldValue_delete s)) (JFieldValue (fst (FieldValue_delete s')))
   \<and> fst (FieldValue_serverTimestamp s) = fst (FieldValue_serverTimestamp s')
   \<and> strict_eq (JFieldValue (fst (FieldValue_serverTimestamp s)))
        (JFieldValue (fst (FieldValue_serverTimestamp s')))
   \<and> isEqual (fst (FieldValue_serverTimestamp s))
        (JFieldValue (fst (FieldValue_serverTimestamp s')))
   \<and> \<not> isEqual (fst (FieldValue_delete s)) (JFieldValue (fst (FieldValue_serverTimestamp s')))
   \<and> \<not> isEqual (fst (FieldValue_serverTimestamp s)) (JFieldValue (fst (FieldValue_delete s')))"
  by (simp add: FieldValue_delete_def FieldValue_serverTimestamp_def DELETE_SENTINEL_def
      SERVER_TIMESTAMP_SENTINEL_def isEqual_def FieldValue_isEqual_def)

theorem sentinel_identity_witness:
  "fst (FieldValue_delete 2) = fst (FieldValue_delete 5)
   \<and> isEqual (fst (FieldValue_delete 2)) (JFieldValue (fst (FieldValue_delete 5)))
   \<and> isEqual (fst (FieldValue_serverTimestamp 2))
        (JFieldValue (fst (FieldValue_serverTimestamp 5)))
   \<and> \<not> isEqual (fst (FieldValue_delete 2)) (JFieldValue (fst (FieldValue_serverTimestamp 5)))"
  using sentinel_identity [of 2 5] by blast

subsection \<open>Equality of increments\<close>

text \<open>
  C5. For all numbers \<open>a\<close> and \<open>b\<close>, \<open>increment(a).isEqual(increment(b))\<close> returns the
  value of \<open>a === b\<close> (\<open>number_eq\<close>). In particular \<open>increment(1)\<close> equals
  \<open>increment(1.0)\<close>, \<open>increment(0)\<close> equals \<open>increment(-0)\<close>, and \<open>increment(1)\<close> does
  not equal \<open>increment(2)\<close>.
\<close>

theorem increment_isEqual_numeric:
  "isEqual_of_calls (FieldValue_increment [JNumber a]) (FieldValue_increment [JNumber b]) s
     = Some (number_eq a b)
   \<and> isEqual_of_calls (FieldValue_increment [JNumber (Num 1)])
        (FieldValue_increment [JNumber (Num 1.0)]) s = Some True
   \<and> isEqual_of_calls (FieldValue_increment [JNumber (Num 0)])
        (FieldValue_increment [JNumber NegZero]) s = Some True
   \<and> isEqual_of_calls (FieldValue_increment [JNumber (Num 1)])
        (FieldValue_increment [JNumber (Num 2)]) s = Some False"
  by (simp add: isEqual_of_calls_def FieldValue_increment_def validateMinNumberOfArguments_def
      isEqual_def number_eq_def is_zero_def)

theorem increment_isEqual_numeric_witness:
  "isEqual_of_calls (FieldValue_increment [JNumber (Num 2.5)])
     (FieldValue_increment [JNumber (Num (5 / 2))]) initial_alloc = Some True
   \<and> isEqual_of_calls (FieldValue_increment [JNumber PosInfinity])
        (FieldValue_increment [JNumber NegInfinity]) initial_alloc = Some False"
  using increment_isEqual_numeric [of "Num 2.5" "Num (5 / 2)" initial_alloc]
    increment_isEqual_numeric [of PosInfinity NegInfinity initial_alloc]
  by (simp add: number_eq_def is_zero_def)

subsection \<open>Reflexivity\<close>

text \<open>
  C10. \<open>x.isEqual(x)\<close> is true for every transform instance \<open>x\<close>, whatever its kind and
  payload. The instance returned by \<open>increment(NaN)\<close> is \<open>isEqual\<close> to itself although
  \<open>NaN === NaN\<close> is false, and two separately constructed \<open>increment(NaN)\<close> are not
  \<open>isEqual\<close>.
\<close>

theorem isEqual_reflexive:
  "isEqual x (JFieldValue x)
   \<and> FieldValue_increment [JNumber NaN] s
       = (Inr (Instance s (NumericIncrementTransform (JNumber NaN))), Suc s)
   \<and> isEqual (Instance s (NumericIncrementTransform (JNumber NaN)))
       (JFieldValue (Instance s (NumericIncrementTransform (JNumber NaN))))
   \<and> \<not> strict_eq (JNumber NaN) (JNumber NaN)
   \<and> isEqual_of_calls (FieldValue_increment [JNumber NaN]) (FieldValue_increment [JNumber NaN]) s
       = Some False"
proof -
  have refl: "isEqual y (JFieldValue y)" for y
  proof (cases y)
    case (Instance r t)
    then show ?thesis
      by (cases t) (simp_all add: isEqual_def FieldValue_isEqual_def)
  qed
  have nan: "\<not> strict_eq (JNumber NaN) (JNumber NaN)"
    by (simp add: number_eq_def)
  have two: "isEqual_of_calls (FieldValue_increment [JNumber NaN])
      (FieldValue_increment [JNumber NaN]) s = Some False"
    by (simp add: isEqual_of_calls_def increment_returns isEqual_def number_eq_def)
  show ?thesis
    using refl nan two by (simp add: increment_returns)
qed

theorem isEqual_reflexive_witness:
  "isEqual (Instance 4 (ArrayUnionTransform 3 [JNumber NaN]))
     (JFieldValue (Instance 4 (ArrayUnionTransform 3 [JNumber NaN])))
   \<and> isEqual_of_calls (FieldValue_increment [JNumber NaN]) (FieldValue_increment [JNumber NaN]) 2
       = Some False"
  using isEqual_reflexive [of "Instance 4 (ArrayUnionTransform 3 [JNumber NaN])" 2] by simp

subsection \<open>Construction\<close>

text \<open>
  C9. \<open>arrayUnion()\<close>, \<open>arrayRemove()\<close> and \<open>increment()\<close> called with no argument raise
  an ArgumentError at construction; called with at least one argument each returns a
  transform.
\<close>

theorem factories_argument_count:
  "FieldValue_arrayUnion [] s = (Inl (ArgumentError ''FieldValue.arrayUnion'' 1), Suc s)
   \<and> FieldValue_arrayRemove [] s = (Inl (ArgumentError ''FieldValue.arrayRemove'' 1), Suc s)
   \<and> FieldValue_increment [] s = (Inl (ArgumentError ''FieldValue.increment'' 1), s)
   \<and> (args \<noteq> [] \<longrightarrow>
        (\<exists>x s'. FieldValue_arrayUnion args s = (Inr x, s'))
        \<and> (\<exists>x s'. FieldValue_arrayRemove args s = (Inr x, s'))
        \<and> (\<exists>x s'. FieldValue_increment args s = (Inr x, s')))"
proof -
  have none: "FieldValue_arrayUnion [] s = (Inl (ArgumentError ''FieldValue.arrayUnion'' 1), Suc s)"
    "FieldValue_arrayRemove [] s = (Inl (ArgumentError ''FieldValue.arrayRemove'' 1), Suc s)"
    "FieldValue_increment [] s = (Inl (ArgumentError ''FieldValue.increment'' 1), s)"
    by (simp_all add: FieldValue_arrayUnion_def FieldValue_arrayRemove_def
        FieldValue_increment_def validateMinNumberOfArguments_def)
  have some: "\<exists>x s'. FieldValue_increment args s = (Inr x, s')" if "args \<noteq> []"
    using that by (cases args) (simp_all add: increment_returns)
  show ?thesis
    using none some by (simp add: arrayUnion_returns arrayRemove_returns)
qed

theorem factories_argument_count_witness:
  "FieldValue_arrayUnion [] 2 = (Inl (ArgumentError ''FieldValue.arrayUnion'' 1), 3)
   \<and> [JString ''foo''] \<noteq> []
   \<and> (\<exists>x s'. FieldValue_arrayUnion [JString ''foo''] 2 = (Inr x, s'))
   \<and> (\<exists>x s'. FieldValue_arrayRemove [JString ''foo''] 2 = (Inr x, s'))
   \<and> (\<exists>x s'. FieldValue_increment [JString ''foo''] 2 = (Inr x, s'))"
  using factories_argument_count [of 2 "[JString ''foo'']"] by simp

text \<open>
  C8. \<open>increment(x)\<close> returns a transform holding \<open>x\<close> for every operand \<open>x\<close>, numeric
  or not: construction checks nothing about the operand. When \<open>x\<close> is not a number,
  \<open>validate()\<close> on the returned transform raises a ValidationError.
\<close>

theorem increment_validation_deferred:
  "FieldValue_increment [x] s = (Inr (Instance s (NumericIncrementTransform x)), Suc s)
   \<and> (\<not> isNumber x \<longrightarrow>
        validate numberOk validateUserInput' (transform_of (Instance s (NumericIncrementTransform x)))
          allowUndef
        = Inl (ValidationError (ArgName ''FieldValue.increment()'') NonNumericOperand))"
  by (cases x) (simp_all add: increment_returns validateNumber_def)

theorem increment_validation_deferred_witness:
  "FieldValue_increment [JString ''x''] 2
     = (Inr (Instance 2 (NumericIncrementTransform (JString ''x''))), 3)
   \<and> \<not> isNumber (JString ''x'')
   \<and> validate (\<lambda>n. True) validateUserInput
        (transform_of (Instance 2 (NumericIncrementTransform (JString ''x'')))) False
      = Inl (ValidationError (ArgName ''FieldValue.increment()'') NonNumericOperand)"
  using increment_validation_deferred
    [of "JString ''x''" 2 "\<lambda>n. True" validateUserInput False]
  by simp

subsection \<open>Equality of array transforms\<close>

lemma deepEqual_array_list_all2: "deepEqual_array xs ys = list_all2 deepEqual xs ys"
proof (induction xs arbitrary: ys)
  case Nil
  show ?case by auto
next
  case (Cons x xs)
  show ?case
    by (cases ys) (simp_all add: Cons.IH del: deepEqual.simps)
qed

lemma isEqual_arrayUnion_calls:
  assumes "args \<noteq> []" and "args' \<noteq> []"
  shows "isEqual_of_calls (FieldValue_arrayUnion args) (FieldValue_arrayUnion args') s
    = Some (deepEqual_array args args')"
  using assms by (simp add: isEqual_of_calls_def arrayUnion_returns isEqual_def)

lemma isEqual_arrayRemove_calls:
  assumes "args \<noteq> []" and "args' \<noteq> []"
  shows "isEqual_of_calls (FieldValue_arrayRemove args) (FieldValue_arrayRemove args') s
    = Some (deepEqual_array args args')"
  using assms by (simp add: isEqual_of_calls_def arrayRemove_returns isEqual_def)

lemma isEqual_union_remove_calls:
  assumes "args \<noteq> []" and "args' \<noteq> []"
  shows "isEqual_of_calls (FieldValue_arrayUnion args) (FieldValue_arrayRemove args') s = Some False"
    and "isEqual_of_calls (FieldValue_arrayRemove args) (FieldValue_arrayUnion args') s = Some False"
  using assms
  by (simp_all add: isEqual_of_calls_def arrayUnion_returns arrayRemove_returns isEqual_def)

lemma deepEqual_array_swapped:
  "\<not> deepEqual_array [JNumber (Num 1), JNumber (Num 2)] [JNumber (Num 2), JNumber (Num 1)]"
  by (simp add: number_eq_def is_zero_def)

text \<open>
  C6. For two separately constructed array transforms of one kind, \<open>isEqual\<close> is the
  deep equality of the two element lists, which compares them position by position.
  Hence two \<open>arrayUnion\<close> calls with the same elements in the same order are
  \<open>isEqual\<close>, for every element list, and \<open>arrayUnion(1,2)\<close> is not \<open>isEqual\<close> to
  \<open>arrayUnion(2,1)\<close>; the same holds for \<open>arrayRemove\<close>. An ArrayUnion transform is
  never \<open>isEqual\<close> to a distinct ArrayRemove transform, nor the converse.
\<close>

theorem array_transform_isEqual:
  "(args \<noteq> [] \<and> args' \<noteq> [] \<longrightarrow>
      isEqual_of_calls (FieldValue_arrayUnion args) (FieldValue_arrayUnion args') s
        = Some (list_all2 deepEqual args args')
      \<and> isEqual_of_calls (FieldValue_arrayRemove args) (FieldValue_arrayRemove args') s
        = Some (list_all2 deepEqual args args')
      \<and> isEqual_of_calls (FieldValue_arrayUnion args) (FieldValue_arrayUnion args) s = Some True
      \<and> isEqual_of_calls (FieldValue_arrayRemove args) (FieldValue_arrayRemove args) s = Some True
      \<and> isEqual_of_calls (FieldValue_arrayUnion args) (FieldValue_arrayRemove args') s = Some False
      \<and> isEqual_of_calls (FieldValue_arrayRemove args) (FieldValue_arrayUnion args') s = Some False)
   \<and> isEqual_of_calls (FieldValue_arrayUnion [JNumber (Num 1), JNumber (Num 2)])
        (FieldValue_arrayUnion [JNumber (Num 2), JNumber (Num 1)]) s = Some False
   \<and> isEqual_of_calls (FieldValue_arrayRemove [JNumber (Num 1), JNumber (Num 2)])
        (FieldValue_arrayRemove [JNumber (Num 2), JNumber (Num 1)]) s = Some False
   \<and> (r \<noteq> r' \<longrightarrow>
        \<not> isEqual (Instance r (ArrayUnionTransform a els))
            (JFieldValue (Instance r' (ArrayRemoveTransform a' els')))
        \<and> \<not> isEqual (Instance r (ArrayRemoveTransform a els))
            (JFieldValue (Instance r' (ArrayUnionTransform a' els'))))"
proof -
  have same: "isEqual_of_calls (FieldValue_arrayUnion args) (FieldValue_arrayUnion args) s = Some True"
    "isEqual_of_calls (FieldValue_arrayRemove args) (FieldValue_arrayRemove args) s = Some True"
    if "args \<noteq> []"
    using that
    by (simp_all add: isEqual_arrayUnion_calls isEqual_arrayRemove_calls deepEqual_array_refl)
  have swapped:
    "isEqual_of_calls (FieldValue_arrayUnion [JNumber (Num 1), JNumber (Num 2)])
        (FieldValue_arrayUnion [JNumber (Num 2), JNumber (Num 1)]) s = Some False"
    "isEqual_of_calls (FieldValue_arrayRemove [JNumber (Num 1), JNumber (Num 2)])
        (FieldValue_arrayRemove [JNumber (Num 2), JNumber (Num 1)]) s = Some False"
    using deepEqual_array_swapped
    by (simp_all only: isEqual_arrayUnion_calls isEqual_arrayRemove_calls list.distinct
        not_False_eq_True)
  have kinds: "\<not> isEqual (Instance r (ArrayUnionTransform a els))
            (JFieldValue (Instance r' (ArrayRemoveTransform a' els')))"
    "\<not> isEqual (Instance r (ArrayRemoveTransform a els))
            (JFieldValue (Instance r' (ArrayUnionTransform a' els')))"
    if "r \<noteq> r'"
    using that by (simp_all add: isEqual_def)
  show ?thesis
    using same swapped kinds
    by (simp add: isEqual_arrayUnion_calls isEqual_arrayRemove_calls isEqual_union_remove_calls
        deepEqual_array_list_all2 [symmetric] del: deepEqual.simps)
qed

theorem array_transform_isEqual_witness:
  "[JString ''a'', JNumber NaN] \<noteq> [] \<and> (3::nat) \<noteq> 5
   \<and> isEqual_of_calls (FieldValue_arrayUnion [JString ''a'', JNumber NaN])
        (FieldValue_arrayUnion [JString ''a'', JNumber NaN]) 2 = Some True
   \<and> isEqual_of_calls (FieldValue_arrayUnion [JString ''a'', JNumber NaN])
        (FieldValue_arrayRemove [JString ''a'', JNumber NaN]) 2 = Some False
   \<and> \<not> isEqual (Instance 3 (ArrayUnionTransform 2 [JString ''a'']))
        (JFieldValue (Instance 5 (ArrayRemoveTransform 4 [JString ''a''])))"
  using array_transform_isEqual
    [of "[JString ''a'', JNumber NaN]" "[JString ''a'', JNumber NaN]" 2 3 5 2 "[JString ''a'']"
      4 "[JString ''a'']"]
  by simp

subsection \<open>Validation of array elements\<close>

lemma validateArrayElement_array:
  "isArray v \<Longrightarrow> validateArrayElement V a v allowUndef = Inl (nestedArrayError a)"
  by (simp add: validateArrayElement_def)

lemma validateElements_first_array:
  "i < length els \<Longrightarrow> isArray (els ! i) \<Longrightarrow>
   (\<forall>j<i. validateArrayElement V (ArgIndex (k + j)) (els ! j) allowUndef = Inr ()) \<Longrightarrow>
   validateElements V k els allowUndef = Inl (nestedArrayError (ArgIndex (k + i)))"
proof (induction els arbitrary: i k)
  case Nil
  then show ?case by simp
next
  case (Cons x xs)
  show ?case
  proof (cases i)
    case 0
    with Cons.prems show ?thesis
      by (simp add: validateArrayElement_array)
  next
    case (Suc i')
    from Cons.prems(3) Suc have first: "validateArrayElement V (ArgIndex k) x allowUndef = Inr ()"
      by (metis add.right_neutral nth_Cons_0 zero_less_Suc)
    have rest: "\<forall>j<i'. validateArrayElement V (ArgIndex (Suc k + j)) (xs ! j) allowUndef = Inr ()"
    proof (intro allI impI)
      fix j assume "j < i'"
      then have "Suc j < i" using Suc by simp
      with Cons.prems(3) have "validateArrayElement V (ArgIndex (k + Suc j)) ((x # xs) ! Suc j)
          allowUndef = Inr ()"
        by blast
      then show "validateArrayElement V (ArgIndex (Suc k + j)) (xs ! j) allowUndef = Inr ()"
        by simp
    qed
    from Cons.prems Suc have "i' < length xs" "isArray (xs ! i')"
      by simp_all
    from Cons.IH [OF this rest] first Suc show ?thesis
      by simp
  qed
qed

lemma validateElements_array_raises:
  "\<exists>x\<in>set els. isArray x \<Longrightarrow> \<exists>e. validateElements V k els allowUndef = Inl e"
proof (induction els arbitrary: k)
  case Nil
  then show ?case by simp
next
  case (Cons x xs)
  show ?case
  proof (cases "validateArrayElement V (ArgIndex k) x allowUndef")
    case (Inl e)
    then show ?thesis by simp
  next
    case (Inr u)
    then have "\<not> isArray x"
      by (auto simp: validateArrayElement_def)
    with Cons.prems have "\<exists>y\<in>set xs. isArray y" by simp
    from Cons.IH [OF this] Inr show ?thesis by simp
  qed
qed

text \<open>
  The claim C7 as stated, that whenever the element list contains an array
  \<open>validate\<close> raises the nested-array error naming that element's index, fails when an
  earlier element is rejected by the general validator: the loop raises the first
  failing element's error. For \<open>arrayUnion(serverTimestamp(), [1])\<close> the element at index
  1 is an array, and the error raised is that of the transform at index 0.
\<close>

theorem nested_array_error_counterexample:
  "FieldValue_arrayUnion
       [JFieldValue (fst (FieldValue_serverTimestamp 3)), JArray 2 [JNumber (Num 1)]] 3
     = (Inr (Instance 4 (ArrayUnionTransform 3
          [JFieldValue SERVER_TIMESTAMP_SENTINEL, JArray 2 [JNumber (Num 1)]])), 5)
   \<and> isArray ([JFieldValue SERVER_TIMESTAMP_SENTINEL, JArray 2 [JNumber (Num 1)]] ! 1)
   \<and> validate (\<lambda>n. True) validateUserInput
        (ArrayUnionTransform 3 [JFieldValue SERVER_TIMESTAMP_SENTINEL, JArray 2 [JNumber (Num 1)]])
        False
      = Inl (ValidationError (ArgIndex 0) DisallowedTransform)
   \<and> validate (\<lambda>n. True) validateUserInput
        (ArrayUnionTransform 3 [JFieldValue SERVER_TIMESTAMP_SENTINEL, JArray 2 [JNumber (Num 1)]])
        False
      \<noteq> Inl (Error [InvalidArgumentMessage (ArgIndex 1) ''array element'',
                     Lit '' Nested arrays are not supported.''])"
  by (simp add: FieldValue_arrayUnion_def FieldValue_serverTimestamp_def
      validateMinNumberOfArguments_def validateArrayElement_def SERVER_TIMESTAMP_SENTINEL_def)

text \<open>
  C7 (amended). For every validator passed as \<open>validateUserInput\<close> and every value of the
  flag: \<open>validateArrayElement\<close> on an array raises the nested-array error for its
  argument label without consulting the validator; \<open>validate\<close> on an arrayUnion or
  arrayRemove transform whose element list contains an array raises an error; and when
  the element at index \<open>i\<close> is an array and every element before it passes
  \<open>validateArrayElement\<close>, the error raised is the nested-array error naming index \<open>i\<close>.
\<close>

theorem nested_array_rejected:
  "validateArrayElement V lbl (JArray r xs) allowUndef
     = Inl (Error [InvalidArgumentMessage lbl ''array element'',
                   Lit '' Nested arrays are not supported.''])
   \<and> ((\<exists>x\<in>set els. isArray x) \<longrightarrow>
        (\<exists>e. validate numberOk V (ArrayUnionTransform a els) allowUndef = Inl e)
        \<and> (\<exists>e. validate numberOk V (ArrayRemoveTransform a els) allowUndef = Inl e))
   \<and> (i < length els \<and> isArray (els ! i)
        \<and> (\<forall>j<i. validateArrayElement V (ArgIndex j) (els ! j) allowUndef = Inr ()) \<longrightarrow>
        validate numberOk V (ArrayUnionTransform a els) allowUndef
          = Inl (Error [InvalidArgumentMessage (ArgIndex i) ''array element'',
                        Lit '' Nested arrays are not supported.''])
        \<and> validate numberOk V (ArrayRemoveTransform a els) allowUndef
          = Inl (Error [InvalidArgumentMessage (ArgIndex i) ''array element'',
                        Lit '' Nested arrays are not supported.'']))"
proof -
  have element: "validateArrayElement V lbl (JArray r xs) allowUndef
     = Inl (Error [InvalidArgumentMessage lbl ''array element'',
                   Lit '' Nested arrays are not supported.''])"
    by (simp add: validateArrayElement_def nestedArrayError_def)
  have raises: "\<exists>e. validateElements V 0 els allowUndef = Inl e" if "\<exists>x\<in>set els. isArray x"
    using that by (rule validateElements_array_raises)
  have named: "validateElements V 0 els allowUndef
      = Inl (Error [InvalidArgumentMessage (ArgIndex i) ''array element'',
                    Lit '' Nested arrays are not supported.''])"
    if "i < length els" and "isArray (els ! i)"
      and "\<forall>j<i. validateArrayElement V (ArgIndex j) (els ! j) allowUndef = Inr ()"
    using validateElements_first_array [of i els V 0 allowUndef] that
    by (simp add: nestedArrayError_def)
  show ?thesis
    using element raises named by simp
qed

theorem nested_array_rejected_witness:
  "isArray ([JString ''x'', JArray 2 [JNumber (Num 1)]] ! 1)
   \<and> validateArrayElement validateUserInput (ArgIndex 0) (JString ''x'') True = Inr ()
   \<and> validate (\<lambda>n. True) validateUserInput
        (ArrayUnionTransform 3 [JString ''x'', JArray 2 [JNumber (Num 1)]]) True
      = Inl (Error [InvalidArgumentMessage (ArgIndex 1) ''array element'',
                    Lit '' Nested arrays are not supported.''])
   \<and> validate (\<lambda>n. True) validateUserInput
        (ArrayRemoveTransform 3 [JString ''x'', JArray 2 [JNumber (Num 1)]]) False
      = Inl (Error [InvalidArgumentMessage (ArgIndex 1) ''array element'',
                    Lit '' Nested arrays are not supported.''])"
proof -
  have first: "validateArrayElement validateUserInput (ArgIndex 0) (JString ''x'') b = Inr ()" for b
    by (simp add: validateArrayElement_def)
  have before: "\<forall>j<1. validateArrayElement validateUserInput (ArgIndex j)
      ([JString ''x'', JArray 2 [JNumber (Num 1)]] ! j) b = Inr ()" for b
    using first by simp
  have arr: "isArray ([JString ''x'', JArray 2 [JNumber (Num 1)]] ! 1)"
    by simp
  show ?thesis
    using first arr before
      nested_array_rejected [of validateUserInput "ArgIndex 0" 2 "[JNumber (Num 1)]" True
        "[JString ''x'', JArray 2 [JNumber (Num 1)]]" "\<lambda>n. True" 3 1]
      nested_array_rejected [of validateUserInput "ArgIndex 0" 2 "[JNumber (Num 1)]" False
        "[JString ''x'', JArray 2 [JNumber (Num 1)]]" "\<lambda>n. True" 3 1]
    by simp
qed

subsection \<open>Encoding\<close>

text \<open>
  The claim C3 as stated, that \<open>arrayUnion(e1..ek)\<close> encodes to
  \<open>{fieldPath: p, appendMissingElements: encode([e1..ek])}\<close>, fails: \<open>toProto\<close> stores the
  member \<open>arrayValue\<close> of the encoder's result, not the result. With the sample
  serializer, \<open>arrayUnion("x")\<close> at the path \<open>tags\<close>:
\<close>

theorem toProto_array_counterexample:
  "encodeValue sampleSerializer (JArray 2 [JString ''x''])
     = Inr (WObject [(''arrayValue'',
              WObject [(''values'', WArray [WObject [(''stringValue'', WString ''x'')]])])])
   \<and> toProto (ArrayUnionTransform 2 [JString ''x'']) sampleSerializer \<lparr>formattedName = ''tags''\<rparr>
      = Inr (WObject [(''fieldPath'', WString ''tags''),
               (''appendMissingElements'',
                WObject [(''values'', WArray [WObject [(''stringValue'', WString ''x'')]])])])
   \<and> toProto (ArrayUnionTransform 2 [JString ''x'']) sampleSerializer \<lparr>formattedName = ''tags''\<rparr>
      \<noteq> Inr (WObject [(''fieldPath'', WString ''tags''),
               (''appendMissingElements'',
                WObject [(''arrayValue'',
                  WObject [(''values'', WArray [WObject [(''stringValue'', WString ''x'')]])])])])"
  by (simp add: sampleSerializer_def)

text \<open>
  C3 (amended). For every field path \<open>p\<close> and serializer: the transform of
  \<open>serverTimestamp()\<close> encodes to \<open>{fieldPath: p.formattedName, setToServerValue:
  "REQUEST_TIME"}\<close>; the transform of \<open>increment(n)\<close> encodes to \<open>{fieldPath, increment:
  w}\<close> when \<open>encodeValue(n)\<close> returns \<open>w\<close>; the transforms of \<open>arrayUnion(e1..ek)\<close> and
  \<open>arrayRemove(e1..ek)\<close> encode to \<open>{fieldPath, appendMissingElements: av}\<close> and
  \<open>{fieldPath, removeAllFromArray: av}\<close> when \<open>encodeValue\<close> of the element array returns
  a value whose member \<open>arrayValue\<close> is \<open>av\<close>, and raise a TypeError when it returns
  \<open>null\<close>.
\<close>

theorem toProto_encoding:
  "transform_of (fst (FieldValue_serverTimestamp s)) = ServerTimestampTransform
   \<and> toProto ServerTimestampTransform ser p
      = Inr (WObject [(''fieldPath'', WString (formattedName p)),
                      (''setToServerValue'', WString ''REQUEST_TIME'')])
   \<and> FieldValue_increment [n] s = (Inr (Instance s (NumericIncrementTransform n)), Suc s)
   \<and> (encodeValue ser n = Inr w \<longrightarrow>
        toProto (NumericIncrementTransform n) ser p
          = Inr (WObject [(''fieldPath'', WString (formattedName p)), (''increment'', w)]))
   \<and> (els \<noteq> [] \<longrightarrow>
        FieldValue_arrayUnion els s
          = (Inr (Instance (Suc s) (ArrayUnionTransform s els)), Suc (Suc s))
        \<and> FieldValue_arrayRemove els s
          = (Inr (Instance (Suc s) (ArrayRemoveTransform s els)), Suc (Suc s)))
   \<and> (encodeValue ser (JArray a els) = Inr w' \<and> get_arrayValue w' = Inr av \<longrightarrow>
        toProto (ArrayUnionTransform a els) ser p
          = Inr (WObject [(''fieldPath'', WString (formattedName p)),
                          (''appendMissingElements'', av)])
        \<and> toProto (ArrayRemoveTransform a els) ser p
          = Inr (WObject [(''fieldPath'', WString (formattedName p)),
                          (''removeAllFromArray'', av)]))
   \<and> (encodeValue ser (JArray a els) = Inr WNull \<longrightarrow>
        toProto (ArrayUnionTransform a els) ser p = Inl TypeError
        \<and> toProto (ArrayRemoveTransform a els) ser p = Inl TypeError)"
  by (simp add: FieldValue_serverTimestamp_def SERVER_TIMESTAMP_SENTINEL_def increment_returns
      arrayUnion_returns arrayRemove_returns)

theorem toProto_encoding_witness:
  "encodeValue sampleSerializer (JNumber (Num 5)) = Inr (WObject [(''integerValue'', WNumber (Num 5))])
   \<and> toProto (NumericIncrementTransform (JNumber (Num 5))) sampleSerializer
        \<lparr>formattedName = ''count''\<rparr>
      = Inr (WObject [(''fieldPath'', WString ''count''),
                      (''increment'', WObject [(''integerValue'', WNumber (Num 5))])])
   \<and> toProto (ArrayRemoveTransform 2 [JString ''x'']) sampleSerializer \<lparr>formattedName = ''tags''\<rparr>
      = Inr (WObject [(''fieldPath'', WString ''tags''),
               (''removeAllFromArray'',
                WObject [(''values'', WArray [WObject [(''stringValue'', WString ''x'')]])])])
   \<and> encodeValue \<lparr>encodeValue = (\<lambda>v. Inr WNull)\<rparr> (JArray 2 [JString ''x'']) = Inr WNull
   \<and> toProto (ArrayUnionTransform 2 [JString ''x'']) \<lparr>encodeValue = (\<lambda>v. Inr WNull)\<rparr>
        \<lparr>formattedName = ''tags''\<rparr>
      = Inl TypeError"
proof -
  have five: "encodeValue sampleSerializer (JNumber (Num 5))
      = Inr (WObject [(''integerValue'', WNumber (Num 5))])"
    by (simp add: sampleSerializer_def)
  have xs: "encodeValue sampleSerializer (JArray 2 [JString ''x''])
      = Inr (WObject [(''arrayValue'',
               WObject [(''values'', WArray [WObject [(''stringValue'', WString ''x'')]])])])"
    by (simp add: sampleSerializer_def)
  have av: "get_arrayValue (WObject [(''arrayValue'',
               WObject [(''values'', WArray [WObject [(''stringValue'', WString ''x'')]])])])
      = Inr (WObject [(''values'', WArray [WObject [(''stringValue'', WString ''x'')]])])"
    by simp
  have null: "encodeValue \<lparr>encodeValue = (\<lambda>v. Inr WNull)\<rparr> (JArray 2 [JString ''x'']) = Inr WNull"
    by simp
  show ?thesis
    using five xs av null
      toProto_encoding [of 2 sampleSerializer "\<lparr>formattedName = ''count''\<rparr>" "JNumber (Num 5)"
        "WObject [(''integerValue'', WNumber (Num 5))]" "[JString ''x'']" 2
        "WObject [(''arrayValue'',
           WObject [(''values'', WArray [WObject [(''stringValue'', WString ''x'')]])])]"
        "WObject [(''values'', WArray [WObject [(''stringValue'', WString ''x'')]])]"]
      toProto_encoding [of 2 sampleSerializer "\<lparr>formattedName = ''tags''\<rparr>" "JNumber (Num 5)"
        "WObject [(''integerValue'', WNumber (Num 5))]" "[JString ''x'']" 2
        "WObject [(''arrayValue'',
           WObject [(''values'', WArray [WObject [(''stringValue'', WString ''x'')]])])]"
        "WObject [(''values'', WArray [WObject [(''stringValue'', WString ''x'')]])]"]
      toProto_encoding [of 2 "\<lparr>encodeValue = (\<lambda>v. Inr WNull)\<rparr>" "\<lparr>formattedName = ''tags''\<rparr>"
        "JNumber (Num 5)" WNull "[JString ''x'']" 2 WNull WNull]
    by simp
qed

end
